theory Spec2Isabelle
  imports Complex_Main "HOL-Library.Word" "HOL-Library.AList"
begin

section \<open>JavaScript strings\<close>

text \<open>
  A JavaScript string is a sequence of UTF-16 code units; \<open>length\<close>, \<open>charAt\<close>,
  \<open>substring\<close>, \<open>trim\<close> and a regular expression without the \<open>u\<close> flag all work on
  code units. A literal of the source that is plain ASCII is written \<open>js ''...''\<close>.
\<close>

type_synonym jschar = "16 word"
type_synonym jsstring = "jschar list"

definition js :: "string \<Rightarrow> jsstring" where
  "js s = map (\<lambda>c. of_nat (of_char c)) s"

text \<open>
  The line terminators of ECMAScript (LF, CR, LS, PS) and its white space: TAB, VT, FF,
  SP, NBSP, ZWNBSP and the space separators of Unicode. \<open>String.prototype.trim\<close> strips
  white space and line terminators; the class \<open>\s\<close> of a regular expression is the same
  set; \<open>.\<close> matches every code unit but a line terminator.
\<close>

definition isLineTerminator :: "jschar \<Rightarrow> bool" where
  "isLineTerminator c = (c = 0x000A \<or> c = 0x000D \<or> c = 0x2028 \<or> c = 0x2029)"

definition isWhiteSpace :: "jschar \<Rightarrow> bool" where
  "isWhiteSpace c =
     (c = 0x0009 \<or> c = 0x000B \<or> c = 0x000C \<or> c = 0x0020 \<or> c = 0x00A0 \<or> c = 0xFEFF \<or>
      c = 0x1680 \<or> (0x2000 \<le> c \<and> c \<le> 0x200A) \<or> c = 0x202F \<or> c = 0x205F \<or> c = 0x3000 \<or>
      isLineTerminator c)"

definition isDot :: "jschar \<Rightarrow> bool" where
  "isDot c = (\<not> isLineTerminator c)"

text \<open>The class \<open>[A-Z0-9]\<close>.\<close>

definition isTokenChar :: "jschar \<Rightarrow> bool" where
  "isTokenChar c = ((0x41 \<le> c \<and> c \<le> 0x5A) \<or> (0x30 \<le> c \<and> c \<le> 0x39))"

definition trim :: "jsstring \<Rightarrow> jsstring" where
  "trim s = rev (dropWhile isWhiteSpace (rev (dropWhile isWhiteSpace s)))"

text \<open>\<open>s.substring(n)\<close> with one argument \<open>n \<ge> 0\<close>; beyond the end it is the empty string.\<close>

definition substring :: "jsstring \<Rightarrow> nat \<Rightarrow> jsstring" where
  "substring s n = drop n s"

text \<open>\<open>s.substring(0, n)\<close>.\<close>

definition substring0 :: "jsstring \<Rightarrow> nat \<Rightarrow> jsstring" where
  "substring0 s n = take n s"

text \<open>\<open>s.charAt(pos)\<close>: the empty string when \<open>pos\<close> is out of range.\<close>

definition charAt :: "jsstring \<Rightarrow> int \<Rightarrow> jsstring" where
  "charAt s pos = (if 0 \<le> pos \<and> pos < int (length s) then [s ! nat pos] else [])"

text \<open>
  Truthiness of a value that is a string or \<open>undefined\<close>/\<open>null\<close> (\<open>None\<close>): only a
  non-empty string is truthy. \<open>a || b\<close> is \<open>a\<close> when \<open>a\<close> is truthy, \<open>b\<close> otherwise.
\<close>

definition truthy :: "jsstring option \<Rightarrow> bool" where
  "truthy v = (case v of None \<Rightarrow> False | Some s \<Rightarrow> s \<noteq> [])"

definition or_else :: "jsstring option \<Rightarrow> jsstring \<Rightarrow> jsstring" where
  "or_else a b = (case a of None \<Rightarrow> b | Some s \<Rightarrow> if s \<noteq> [] then s else b)"

section \<open>Errors\<close>

text \<open>
  A thrown exception or a rejected promise is the \<open>Inl\<close> of a result. \<open>try_catch\<close> is
  \<open>try { body } catch (error) { handler }\<close>.
\<close>

datatype error =
    NotConfigured   \<comment> \<open>\<open>Error('Slack channel not properly configured')\<close>\<close>
  | ExecFailed      \<comment> \<open>\<open>execSync\<close> throws: no tmux binary, no server, not attached\<close>
  | ENOENT          \<comment> \<open>\<open>unlinkSync\<close> of a file that does not exist\<close>
  | MonitorFailed   \<comment> \<open>the tmux monitor throws\<close>
  | PostFailed      \<comment> \<open>\<open>chat.postMessage\<close> rejects\<close>
  | RelayFailed     \<comment> \<open>the command relay throws\<close>
  | TypeError       \<comment> \<open>a property read of \<open>undefined\<close>\<close>

definition try_catch :: "error + 'a \<Rightarrow> (error \<Rightarrow> error + 'a) \<Rightarrow> error + 'a" where
  "try_catch body handler = (case body of Inl e \<Rightarrow> handler e | Inr v \<Rightarrow> Inr v)"

section \<open>Token generation\<close>

definition chars :: jsstring where
  "chars = js ''ABCDEFGHIJKLMNOPQRSTUVWXYZ0123456789''"

text \<open>
  \<open>_generateToken\<close>: the loop \<open>for (let i = 0; i < 8; i++)\<close> appends
  \<open>chars.charAt(Math.floor(Math.random() * chars.length))\<close>. The argument \<open>random\<close> gives
  the value of the \<open>i\<close>-th call of \<open>Math.random()\<close>, a number that JavaScript promises
  in \<open>[0, 1)\<close>. The draws are rational numbers and the product is taken exactly:
  the rounding of the floating-point product is not modelled.
\<close>

function generateToken_loop :: "(nat \<Rightarrow> rat) \<Rightarrow> nat \<Rightarrow> jsstring \<Rightarrow> jsstring" where
  "generateToken_loop random i token =
     (if i < 8
      then generateToken_loop random (i + 1)
             (token @ charAt chars \<lfloor>random i * of_nat (length chars)\<rfloor>)
      else token)"
  by pat_completeness auto
termination
  by (relation "measure (\<lambda>(random, i, token). 8 - i)") auto

definition generateToken :: "(nat \<Rightarrow> rat) \<Rightarrow> jsstring" where
  "generateToken random = generateToken_loop random 0 []"


section \<open>Notifications and session records\<close>

text \<open>
  The notification object \<open>{type, project, message, metadata?}\<close> and the session object
  written by \<open>_createSession\<close>. Fields carry a prefix (\<open>n_\<close>, \<open>m_\<close>, \<open>s_\<close>) since the
  objects share field names. An optional property is an \<open>option\<close>. The two timestamps
  are kept as the milliseconds since the epoch that \<open>toISOString\<close> renders.
\<close>

record metadata =
  m_userQuestion :: "jsstring option"
  m_claudeResponse :: "jsstring option"
  m_tmuxSession :: "jsstring option"

record notification =
  n_type :: jsstring
  n_project :: jsstring
  n_message :: jsstring
  n_metadata :: "metadata option"

record session =
  s_id :: jsstring
  s_token :: jsstring
  s_type :: jsstring
  s_created :: int
  s_expires :: int
  s_tmuxSession :: jsstring
  s_project :: jsstring
  s_notification :: notification

section \<open>The sessions directory\<close>

text \<open>
  The directory \<open>data/sessions\<close>: its entries, a file name with the session object stored
  in the file. \<open>writeFileSync\<close> creates the file or replaces its content, \<open>unlinkSync\<close>
  throws on a file that does not exist. The constructor has created the directory;
  a failing disk is not modelled. The file of a session is named by its id.
\<close>

type_synonym store = "(jsstring \<times> session) list"

definition sessionFile :: "jsstring \<Rightarrow> jsstring" where
  "sessionFile sessionId = sessionId @ js ''.json''"

definition existsSync :: "store \<Rightarrow> jsstring \<Rightarrow> bool" where
  "existsSync fs f = (map_of fs f \<noteq> None)"

definition writeFileSync :: "store \<Rightarrow> jsstring \<Rightarrow> session \<Rightarrow> store" where
  "writeFileSync fs f data = AList.update f data fs"

definition unlinkSync :: "store \<Rightarrow> jsstring \<Rightarrow> error + store" where
  "unlinkSync fs f = (if map_of fs f = None then Inl ENOENT else Inr (AList.delete f fs))"

text \<open>\<open>_removeSession\<close>.\<close>

definition removeSession :: "store \<Rightarrow> jsstring \<Rightarrow> error + store" where
  "removeSession fs sessionId =
     (if existsSync fs (sessionFile sessionId)
      then unlinkSync fs (sessionFile sessionId)
      else Inr fs)"

section \<open>The environment of a send\<close>

text \<open>
  What one call of \<open>_sendImpl\<close> reads from outside: the draws of \<open>Math.random()\<close>, the
  identifier returned by \<open>uuidv4()\<close>, the outcome of
  \<open>execSync('tmux display-message -p "#S"')\<close>, the two clock readings \<open>new Date()\<close> and
  \<open>Date.now()\<close>, and the outcome of \<open>chat.postMessage\<close> for a channel and a text. The
  tmux monitor is a module of its own: its \<open>getRecentConversation\<close> is a parameter.
\<close>

record conversation =
  c_userQuestion :: "jsstring option"
  c_claudeResponse :: "jsstring option"

record env =
  mathRandom :: "nat \<Rightarrow> rat"
  uuidv4 :: jsstring
  execSync :: "error + jsstring"
  getRecentConversation :: "jsstring \<Rightarrow> error + conversation"
  newDate :: int
  dateNow :: int
  postMessage :: "jsstring option \<Rightarrow> jsstring \<Rightarrow> error + unit"

record config =
  botToken :: "jsstring option"
  channelId :: "jsstring option"

definition validateConfig :: "config \<Rightarrow> bool" where
  "validateConfig cfg =
     (if \<not> truthy (botToken cfg) then False
      else if \<not> truthy (channelId cfg) then False
      else True)"

section \<open>Session creation\<close>

text \<open>\<open>_getCurrentTmuxSession\<close>: \<open>None\<close> is \<open>null\<close>.\<close>

definition getCurrentTmuxSession :: "error + jsstring \<Rightarrow> error + jsstring option" where
  "getCurrentTmuxSession exec =
     try_catch
       (case exec of
          Inl e \<Rightarrow> Inl e
        | Inr out \<Rightarrow>
            (let tmuxSession = trim out
             in Inr (if tmuxSession \<noteq> [] then Some tmuxSession else None)))
       (\<lambda>error. Inr None)"

text \<open>
  The block \<open>if (tmuxSession && !notification.metadata) { ... }\<close> of \<open>_createSession\<close>: it
  assigns \<open>notification.metadata\<close>, so the notification is returned.
\<close>

definition attachMetadata ::
  "env \<Rightarrow> notification \<Rightarrow> jsstring option \<Rightarrow> error + notification" where
  "attachMetadata e notification tmuxSession =
     (case tmuxSession of
        None \<Rightarrow> Inr notification
      | Some name \<Rightarrow>
          if name \<noteq> [] \<and> n_metadata notification = None
          then (case getRecentConversation e name of
                  Inl err \<Rightarrow> Inl err
                | Inr conversation \<Rightarrow>
                    Inr (notification\<lparr>n_metadata := Some
                      \<lparr>m_userQuestion =
                          Some (or_else (c_userQuestion conversation) (n_message notification)),
                       m_claudeResponse =
                          Some (or_else (c_claudeResponse conversation) (n_message notification)),
                       m_tmuxSession = Some name\<rparr>\<rparr>))
          else Inr notification)"

text \<open>
  \<open>_createSession\<close> returns the session id; the model returns with it the directory after
  \<open>writeFileSync\<close> and the notification, which the block above may have changed.
\<close>

definition createSession ::
  "env \<Rightarrow> store \<Rightarrow> notification \<Rightarrow> jsstring \<Rightarrow> error + (jsstring \<times> store \<times> notification)" where
  "createSession e fs notification token =
     (let sessionId = uuidv4 e
      in case getCurrentTmuxSession (execSync e) of
           Inl err \<Rightarrow> Inl err
         | Inr tmuxSession \<Rightarrow>
             (case attachMetadata e notification tmuxSession of
                Inl err \<Rightarrow> Inl err
              | Inr notification' \<Rightarrow>
                  (let session =
                     \<lparr>s_id = sessionId,
                      s_token = token,
                      s_type = js ''slack'',
                      s_created = newDate e,
                      s_expires = dateNow e + 24 * 60 * 60 * 1000,
                      s_tmuxSession =
                        (case n_metadata notification' of
                           None \<Rightarrow> js ''default''
                         | Some m \<Rightarrow> or_else (m_tmuxSession m) (js ''default'')),
                      s_project = n_project notification',
                      s_notification = notification'\<rparr>
                   in Inr (sessionId, writeFileSync fs (sessionFile sessionId) session,
                           notification'))))"

section \<open>Sending a notification\<close>

text \<open>
  \<open>_generateSlackMessage\<close>. The two emoji are one code unit each (U+2705, U+23F3);
  \<open>quoted\<close> is one of the two optional blocks
  \<open>if (notification.metadata && notification.metadata.f) messageText += ...\<close>.
\<close>

definition nl :: jsstring where
  "nl = [0x000A]"

definition quoted :: "jsstring \<Rightarrow> metadata option \<Rightarrow> (metadata \<Rightarrow> jsstring option) \<Rightarrow> nat \<Rightarrow> jsstring" where
  "quoted title md f n =
     (case md of
        None \<Rightarrow> []
      | Some m \<Rightarrow>
          (case f m of
             None \<Rightarrow> []
           | Some s \<Rightarrow>
               if s \<noteq> [] then title @ nl @ js ''> '' @ substring0 s n @ nl @ nl else []))"

definition generateSlackMessage :: "notification \<Rightarrow> jsstring \<Rightarrow> jsstring" where
  "generateSlackMessage notification token =
     (let type = n_type notification;
          emoji = (if type = js ''completed'' then [0x2705] else [0x23F3]);
          status = (if type = js ''completed'' then js ''Completed'' else js ''Waiting for Input'');
          messageText = emoji @ js '' *Claude Task '' @ status @ js ''*'' @ nl @ nl;
          messageText = messageText @ js ''*Project:*'' @ nl @ n_project notification @ nl @ nl;
          messageText = messageText @ js ''*Session Token:*'' @ nl @ js ''`'' @ token @ js ''`'' @ nl @ nl;
          messageText = messageText @
            quoted (js ''*Your Question:*'') (n_metadata notification) m_userQuestion 500;
          messageText = messageText @
            quoted (js ''*Claude Response:*'') (n_metadata notification) m_claudeResponse 1000;
          messageText = messageText @
            js ''To send a new command, use: `/claude '' @ token @ js '' <your command>`''
      in messageText)"

text \<open>
  \<open>_sendImpl\<close>: what it returns (or throws), the directory it leaves, and the channel and
  text it passed to \<open>chat.postMessage\<close>, if it came to that.
\<close>

record send_outcome =
  returned :: "error + bool"
  files :: store
  posted :: "(jsstring option \<times> jsstring) option"

definition sendImpl :: "config \<Rightarrow> env \<Rightarrow> store \<Rightarrow> notification \<Rightarrow> send_outcome" where
  "sendImpl cfg e fs notification =
     (if \<not> validateConfig cfg
      then \<lparr>returned = Inl NotConfigured, files = fs, posted = None\<rparr>
      else
        (let token = generateToken (mathRandom e)
         in case createSession e fs notification token of
              Inl err \<Rightarrow> \<lparr>returned = Inl err, files = fs, posted = None\<rparr>
            | Inr (sessionId, fs', notification') \<Rightarrow>
                (let messageText = generateSlackMessage notification' token
                 in case postMessage e (channelId cfg) messageText of
                      Inr u \<Rightarrow>
                        \<lparr>returned = Inr True, files = fs',
                         posted = Some (channelId cfg, messageText)\<rparr>
                    | Inl error \<Rightarrow>
                        (case removeSession fs' sessionId of
                           Inl err \<Rightarrow>
                             \<lparr>returned = Inl err, files = fs',
                              posted = Some (channelId cfg, messageText)\<rparr>
                         | Inr fs'' \<Rightarrow>
                             \<lparr>returned = Inr False, files = fs'',
                              posted = Some (channelId cfg, messageText)\<rparr>))))"

section \<open>The /claude command\<close>

text \<open>
  \<open>text.match(/^([A-Z0-9]{8})\s/)\<close>: the first capture group when the text starts with
  eight code units of \<open>[A-Z0-9]\<close> and one of \<open>\s\<close>, \<open>None\<close> for \<open>null\<close>.
\<close>

definition tokenMatch :: "jsstring \<Rightarrow> jsstring option" where
  "tokenMatch text =
     (if 9 \<le> length text \<and> list_all isTokenChar (take 8 text) \<and> isWhiteSpace (text ! 8)
      then Some (take 8 text)
      else None)"

text \<open>
  The command relay is a module of its own: \<open>relayCommand\<close> is a parameter, with the
  result object \<open>{success, session?, message?}\<close> it resolves to.
\<close>

record relay_result =
  r_success :: bool
  r_session :: "session option"
  r_message :: "jsstring option"

definition handleCommand ::
  "(jsstring \<Rightarrow> jsstring \<Rightarrow> error + relay_result) \<Rightarrow> jsstring \<Rightarrow> jsstring \<Rightarrow> error + relay_result" where
  "handleCommand relayCommand command token = relayCommand token command"

text \<open>
  What the handler does, in order. The replies are the five texts passed to \<open>say\<close>:
  the usage message, the request to include a command, the confirmation, the failure
  with the relay's message, and the report of an unexpected error.
\<close>

datatype reply =
    InvalidFormatUsage
  | InvalidFormatNoCommand
  | CommandSent jsstring jsstring
  | FailedToSend "jsstring option"
  | UnexpectedError

datatype event =
    Ack
  | Say reply
  | HandleCommand jsstring jsstring   \<comment> \<open>\<open>handleCommand(commandText, { token })\<close>\<close>
  | ConsoleError error

definition claude_command ::
  "(jsstring \<Rightarrow> jsstring \<Rightarrow> error + relay_result) \<Rightarrow> jsstring \<Rightarrow> event list" where
  "claude_command relayCommand command_text =
     Ack #
     (let text = trim command_text
      in case tokenMatch text of
           None \<Rightarrow> [Say InvalidFormatUsage]
         | Some token \<Rightarrow>
             (let commandText = substring text (length token + 1)
              in if commandText = [] then [Say InvalidFormatNoCommand]
                 else
                   HandleCommand commandText token #
                   (case handleCommand relayCommand commandText token of
                      Inl err \<Rightarrow> [ConsoleError err, Say UnexpectedError]
                    | Inr result \<Rightarrow>
                        if r_success result
                        then (case r_session result of
                                None \<Rightarrow> [ConsoleError TypeError, Say UnexpectedError]
                              | Some s \<Rightarrow> [Say (CommandSent (s_tmuxSession s) commandText)])
                        else [Say (FailedToSend (r_message result))])))"

section \<open>The specification's predicates\<close>

text \<open>
  The pattern \<open>^[A-Z0-9]{8}\s+.+$\<close> of the specification, as a regular expression of
  JavaScript: eight token characters, then white space up to some position \<open>j\<close>, then
  at least one character and no line terminator up to the end.
\<close>

definition spec_pattern :: "jsstring \<Rightarrow> bool" where
  "spec_pattern text =
     (8 \<le> length text \<and> list_all isTokenChar (take 8 text) \<and>
      list_ex (\<lambda>j. list_all isWhiteSpace (take (j - 8) (drop 8 text)) \<and>
                   list_all isDot (drop j text))
              [9..<length text])"




section \<open>Concrete inputs\<close>

text \<open>
  A configured channel, a notification without metadata, and an environment outside
  tmux in which every draw of \<open>Math.random()\<close> is \<open>0\<close>, both clock readings fall in the
  same millisecond and the message is posted. \<open>ex_session\<close> is the record that
  \<open>_createSession\<close> writes there, \<open>ex_relayCommand\<close> a relay that accepts every command.
\<close>

definition ex_config :: config where
  "ex_config = \<lparr>botToken = Some (js ''xoxb-1''), channelId = Some (js ''C01'')\<rparr>"

definition ex_notification :: notification where
  "ex_notification =
     \<lparr>n_type = js ''completed'', n_project = js ''demo'', n_message = js ''done'',
      n_metadata = None\<rparr>"

definition ex_env :: env where
  "ex_env =
     \<lparr>mathRandom = (\<lambda>i. 0), uuidv4 = js ''id-1'', execSync = Inl ExecFailed,
      getRecentConversation = (\<lambda>name. Inl MonitorFailed),
      newDate = 1700000000000, dateNow = 1700000000000,
      postMessage = (\<lambda>channel text. Inr ())\<rparr>"

definition ex_session :: "jsstring \<Rightarrow> jsstring \<Rightarrow> session" where
  "ex_session sessionId token =
     \<lparr>s_id = sessionId, s_token = token, s_type = js ''slack'',
      s_created = 1700000000000, s_expires = 1700086400000,
      s_tmuxSession = js ''default'', s_project = js ''demo'',
      s_notification = ex_notification\<rparr>"

definition ex_relayCommand :: "jsstring \<Rightarrow> jsstring \<Rightarrow> error + relay_result" where
  "ex_relayCommand token command =
     Inr \<lparr>r_success = True, r_session = Some (ex_session (js ''id-1'') token),
          r_message = None\<rparr>"

section \<open>Token generation: properties\<close>







section \<open>Evaluation of concrete inputs\<close>

lemmas string_defs = js_def chars_def charAt_def trim_def substring_def substring0_def nl_def
  isWhiteSpace_def isLineTerminator_def isTokenChar_def isDot_def truthy_def or_else_def

lemmas send_defs = sendImpl_def createSession_def attachMetadata_def
  getCurrentTmuxSession_def try_catch_def validateConfig_def generateToken_def
  generateSlackMessage_def quoted_def removeSession_def existsSync_def unlinkSync_def
  writeFileSync_def sessionFile_def Let_def

lemmas handler_defs = claude_command_def handleCommand_def tokenMatch_def spec_pattern_def
  Let_def

lemmas ex_defs = ex_config_def ex_notification_def ex_env_def ex_session_def
  ex_relayCommand_def

section \<open>The /claude command: properties\<close>

lemma trim_last_not_space:
  assumes "trim s \<noteq> []"
  shows "\<not> isWhiteSpace (last (trim s))"
proof -
  let ?ys = "dropWhile isWhiteSpace (rev (dropWhile isWhiteSpace s))"
  have ne: "?ys \<noteq> []" using assms by (simp add: trim_def)
  then have "\<not> isWhiteSpace (hd ?ys)" by (rule hd_dropWhile)
  moreover have "last (trim s) = hd ?ys" using ne by (simp add: trim_def last_rev)
  ultimately show ?thesis by simp
qed

lemma tokenMatch_Some:
  "tokenMatch text = Some token \<longleftrightarrow>
     9 \<le> length text \<and> list_all isTokenChar (take 8 text) \<and> isWhiteSpace (text ! 8) \<and>
     token = take 8 text"
  by (auto simp: tokenMatch_def)

lemma tokenMatch_length: "tokenMatch text = Some token \<Longrightarrow> length token = 8"
  by (auto simp: tokenMatch_Some)

text \<open>
  A trimmed text that matches has a tenth code unit: were it nine long, its last code
  unit would be the white space after the token, which \<open>trim\<close> removes.
\<close>

lemma tokenMatch_trim_longer:
  assumes "tokenMatch (trim s) = Some token"
  shows "9 < length (trim s)"
proof (rule ccontr)
  assume "\<not> 9 < length (trim s)"
  with assms have len: "length (trim s) = 9" and ws: "isWhiteSpace (trim s ! 8)"
    by (auto simp: tokenMatch_Some)
  from len have ne: "trim s \<noteq> []" by auto
  have "last (trim s) = trim s ! 8" using len ne by (simp add: last_conv_nth)
  with trim_last_not_space[OF ne] ws show False by simp
qed

lemma command_after_token:
  assumes "tokenMatch (trim s) = Some token"
  shows "substring (trim s) (length token + 1) \<noteq> []"
  using tokenMatch_trim_longer[OF assms] tokenMatch_length[OF assms]
  by (simp add: substring_def)

lemma claude_command_match:
  assumes "tokenMatch (trim s) = Some token"
  shows "\<exists>rest. claude_command relayCommand s =
           Ack # HandleCommand (drop 9 (trim s)) (take 8 (trim s)) # rest \<and>
           (\<forall>ev \<in> set rest.
              (\<exists>x. ev = Say x \<and> x \<noteq> InvalidFormatNoCommand \<and> x \<noteq> InvalidFormatUsage) \<or>
              (\<exists>err. ev = ConsoleError err))"
  using command_after_token[OF assms] tokenMatch_length[OF assms] assms
  by (auto simp: claude_command_def Let_def substring_def tokenMatch_Some
      split: sum.splits option.splits)

lemma claude_command_no_match:
  assumes "tokenMatch (trim s) = None"
  shows "claude_command relayCommand s = [Ack, Say InvalidFormatUsage]"
  using assms by (simp add: claude_command_def)


text \<open>
  C10. When the trimmed text matches \<open>/^([A-Z0-9]{8})\s/\<close>, the command text
  \<open>text.substring(token.length + 1)\<close> is not empty, so the handler never replies with
  the request to include a command after the token: that branch is unreachable.
\<close>

theorem missing_command_unreachable:
  "(tokenMatch (trim s) = Some token \<longrightarrow> substring (trim s) (length token + 1) \<noteq> []) \<and>
   Say InvalidFormatNoCommand \<notin> set (claude_command relayCommand s)"
proof (cases "tokenMatch (trim s)")
  case None
  then show ?thesis by (simp add: claude_command_no_match)
next
  case (Some t)
  from claude_command_match[OF Some, of relayCommand] command_after_token[OF Some] Some
  show ?thesis by auto
qed

theorem missing_command_unreachable_witness:
  "tokenMatch (trim (js '' AB12CD34 ls '')) = Some (js ''AB12CD34'') \<and>
   substring (trim (js '' AB12CD34 ls '')) (length (js ''AB12CD34'') + 1) = js ''ls'' \<and>
   Say InvalidFormatNoCommand \<notin> set (claude_command ex_relayCommand (js '' AB12CD34 ls ''))"
  using missing_command_unreachable[of "js '' AB12CD34 ls ''" "js ''AB12CD34''" ex_relayCommand]
  by (simp add: handler_defs string_defs)




section \<open>The current tmux session\<close>

text \<open>
  C5. \<open>_getCurrentTmuxSession\<close> never throws: whatever \<open>execSync\<close> does, it returns
  \<open>null\<close> or a non-empty name. It returns \<open>null\<close> when \<open>execSync\<close> throws and when the
  trimmed output is empty, and the trimmed output otherwise.
\<close>

theorem getCurrentTmuxSession_total:
  "(\<exists>r. getCurrentTmuxSession exec = Inr r \<and>
        (r = None \<or> (\<exists>name. r = Some name \<and> name \<noteq> []))) \<and>
   getCurrentTmuxSession (Inl err) = Inr None \<and>
   getCurrentTmuxSession (Inr []) = Inr None \<and>
   getCurrentTmuxSession (Inr out) = Inr (if trim out = [] then None else Some (trim out))"
  by (cases exec) (simp_all add: getCurrentTmuxSession_def try_catch_def trim_def Let_def)

theorem getCurrentTmuxSession_total_witness:
  "getCurrentTmuxSession (Inl ExecFailed) = Inr None \<and>
   getCurrentTmuxSession (Inr nl) = Inr None \<and>
   getCurrentTmuxSession (Inr (js ''work'' @ nl)) = Inr (Some (js ''work''))"
  using getCurrentTmuxSession_total[of "Inr (js ''work'' @ nl)" ExecFailed nl]
        getCurrentTmuxSession_total[of "Inr nl" ExecFailed "js ''work'' @ nl"]
  by (simp add: string_defs)

section \<open>The sessions directory: properties\<close>

lemma removeSession_eq:
  "removeSession fs sessionId = Inr (AList.delete (sessionFile sessionId) fs)"
  by (simp add: removeSession_def existsSync_def unlinkSync_def map_of_eq_None_iff)

lemma existsSync_delete: "\<not> existsSync (AList.delete f fs) f"
  by (simp add: existsSync_def delete_conv')

lemma delete_absent: "\<not> existsSync fs f \<Longrightarrow> AList.delete f fs = fs"
  by (simp add: existsSync_def map_of_eq_None_iff)

text \<open>
  C7. \<open>_removeSession\<close> is idempotent: it never throws, a second removal of the same
  id returns the directory the first one left, in which the file is gone, and the
  removal of an id that has no file leaves the directory as it is.
\<close>

theorem removeSession_idempotent:
  "(\<exists>fs'. removeSession fs sessionId = Inr fs' \<and> removeSession fs' sessionId = Inr fs' \<and>
          \<not> existsSync fs' (sessionFile sessionId)) \<and>
   (\<not> existsSync fs (sessionFile sessionId) \<longrightarrow> removeSession fs sessionId = Inr fs)"
  by (simp add: removeSession_eq delete_idem existsSync_delete delete_absent)

theorem removeSession_idempotent_witness:
  "removeSession [(js ''id-1.json'', ex_session (js ''id-1'') (js ''AAAAAAAA''))] (js ''id-1'') =
     Inr [] \<and>
   \<not> existsSync [] (sessionFile (js ''id-1'')) \<and>
   removeSession [] (js ''id-1'') = Inr []"
  using removeSession_idempotent[of "[]" "js ''id-1''"]
        removeSession_idempotent
          [of "[(js ''id-1.json'', ex_session (js ''id-1'') (js ''AAAAAAAA''))]" "js ''id-1''"]
  by (simp add: send_defs string_defs)

section \<open>Session creation: properties\<close>

text \<open>
  What a successful \<open>_createSession\<close> has done: the id is the one \<open>uuidv4()\<close> returned,
  and the file of that id holds a record with the token passed in, \<open>created\<close> from the
  first clock reading and \<open>expires\<close> from the second one plus 86400000 ms.
\<close>

lemma createSession_record:
  assumes "createSession e fs n token = Inr (sid, fs', n')"
  shows "sid = uuidv4 e \<and>
         (\<exists>s. fs' = AList.update (sessionFile sid) s fs \<and>
              s_id s = sid \<and> s_token s = token \<and> s_type s = js ''slack'' \<and>
              s_created s = newDate e \<and> s_expires s = dateNow e + 86400000 \<and>
              s_tmuxSession s =
                (case n_metadata n' of None \<Rightarrow> js ''default''
                 | Some m \<Rightarrow> or_else (m_tmuxSession m) (js ''default'')) \<and>
              s_project s = n_project n' \<and> s_notification s = n')"
  using assms
  by (auto simp: createSession_def Let_def writeFileSync_def split: sum.splits)


lemma createSession_expires_same_reading:
  assumes "createSession e fs n token = Inr (sid, fs', n')" and "newDate e = dateNow e"
  shows "\<exists>s. map_of fs' (sessionFile sid) = Some s \<and> s_expires s = s_created s + 86400000"
  using createSession_record[OF assms(1)] assms(2) by (auto simp: update_conv')

text \<open>
  No operation on the directory touches the file of another session: the record of a
  session, and with it its \<open>expires\<close>, stays as written until the file is removed.
\<close>

lemma createSession_other_files:
  assumes "createSession e fs n token = Inr (sid, fs', n')" and "f \<noteq> sessionFile sid"
  shows "map_of fs' f = map_of fs f"
  using createSession_record[OF assms(1)] assms(2) by (auto simp: update_conv')

lemma removeSession_other_files:
  assumes "removeSession fs sid = Inr fs'" and "f \<noteq> sessionFile sid"
  shows "map_of fs' f = map_of fs f"
  using assms by (auto simp: removeSession_eq delete_conv')

lemma ex_createSession:
  "createSession ex_env [] ex_notification (js ''AAAAAAAA'') =
     Inr (js ''id-1'', [(js ''id-1.json'', ex_session (js ''id-1'') (js ''AAAAAAAA''))],
          ex_notification)"
  by (simp add: ex_defs send_defs string_defs)

lemma ex_generateToken: "generateToken (\<lambda>i. 0) = js ''AAAAAAAA''"
  by (simp add: generateToken_def string_defs)

text \<open>
  C2. \<open>_createSession\<close> reads the clock twice, \<open>new Date()\<close> for \<open>created\<close> and
  \<open>Date.now()\<close> for \<open>expires\<close>. When the clock advances by a millisecond between the two
  readings, the record written has \<open>expires\<close> one millisecond later than \<open>created\<close> plus
  24 hours.
\<close>

theorem createSession_expires_after_tick:
  "createSession (ex_env\<lparr>dateNow := 1700000000001\<rparr>) [] ex_notification (js ''AAAAAAAA'') =
     Inr (js ''id-1'',
          [(js ''id-1.json'',
            (ex_session (js ''id-1'') (js ''AAAAAAAA''))\<lparr>s_expires := 1700086400001\<rparr>)],
          ex_notification) \<and>
   s_created ((ex_session (js ''id-1'') (js ''AAAAAAAA''))\<lparr>s_expires := 1700086400001\<rparr>) =
     1700000000000 \<and>
   s_expires ((ex_session (js ''id-1'') (js ''AAAAAAAA''))\<lparr>s_expires := 1700086400001\<rparr>) \<noteq>
     s_created ((ex_session (js ''id-1'') (js ''AAAAAAAA''))\<lparr>s_expires := 1700086400001\<rparr>) +
       24 * 60 * 60 * 1000"
  by (simp add: ex_defs send_defs string_defs)

lemma sentinel_or_else:
  assumes "n_metadata n = None \<or> (\<exists>m. n_metadata n = Some m \<and> \<not> truthy (m_tmuxSession m))"
  shows "(case n_metadata n of None \<Rightarrow> js ''default''
          | Some m \<Rightarrow> or_else (m_tmuxSession m) (js ''default'')) = js ''default''"
proof (cases "n_metadata n")
  case None
  then show ?thesis by simp
next
  case (Some m)
  with assms have "\<not> truthy (m_tmuxSession m)" by simp
  then have "or_else (m_tmuxSession m) (js ''default'') = js ''default''"
    by (cases "m_tmuxSession m") (simp_all add: truthy_def or_else_def)
  with Some show ?thesis by simp
qed

text \<open>
  C8. When \<open>_getCurrentTmuxSession\<close> returns \<open>null\<close> and the notification has no
  metadata, or metadata without a tmux session name, \<open>_createSession\<close> succeeds and the
  record it writes has the \<open>tmuxSession\<close> field set to the sentinel \<open>'default'\<close>.
\<close>

theorem createSession_sentinel:
  assumes "getCurrentTmuxSession (execSync e) = Inr None"
    and "n_metadata n = None \<or> (\<exists>m. n_metadata n = Some m \<and> \<not> truthy (m_tmuxSession m))"
  shows "\<exists>fs' s. createSession e fs n token = Inr (uuidv4 e, fs', n) \<and>
           map_of fs' (sessionFile (uuidv4 e)) = Some s \<and>
           s_tmuxSession s = js ''default''"
proof -
  have a: "attachMetadata e n None = Inr n" by (simp add: attachMetadata_def)
  show ?thesis
    using assms(1) a sentinel_or_else[OF assms(2)]
    by (simp add: createSession_def Let_def writeFileSync_def update_conv')
qed

theorem createSession_sentinel_witness:
  "getCurrentTmuxSession (execSync ex_env) = Inr None \<and>
   n_metadata ex_notification = None \<and>
   createSession ex_env [] ex_notification (js ''AAAAAAAA'') =
     Inr (js ''id-1'', [(js ''id-1.json'', ex_session (js ''id-1'') (js ''AAAAAAAA''))],
          ex_notification) \<and>
   s_tmuxSession (ex_session (js ''id-1'') (js ''AAAAAAAA'')) = js ''default'' \<and>
   (\<exists>fs' s. createSession ex_env [] ex_notification (js ''AAAAAAAA'') =
              Inr (uuidv4 ex_env, fs', ex_notification) \<and>
            map_of fs' (sessionFile (uuidv4 ex_env)) = Some s \<and>
            s_tmuxSession s = js ''default'')"
proof -
  have h1: "getCurrentTmuxSession (execSync ex_env) = Inr None"
    by (simp add: ex_defs send_defs)
  have h2: "n_metadata ex_notification = None" by (simp add: ex_defs)
  then have h3: "n_metadata ex_notification = None \<or>
      (\<exists>m. n_metadata ex_notification = Some m \<and> \<not> truthy (m_tmuxSession m))" by simp
  have h4: "s_tmuxSession (ex_session (js ''id-1'') (js ''AAAAAAAA'')) = js ''default''"
    by (simp add: ex_defs)
  have h5: "\<exists>fs' s. createSession ex_env [] ex_notification (js ''AAAAAAAA'') =
              Inr (uuidv4 ex_env, fs', ex_notification) \<and>
            map_of fs' (sessionFile (uuidv4 ex_env)) = Some s \<and>
            s_tmuxSession s = js ''default''"
    by (rule createSession_sentinel[OF h1 h3])
  from h1 h2 ex_createSession h4 h5 show ?thesis by blast
qed

section \<open>Sending a notification: properties\<close>

lemma generateSlackMessage_token:
  "\<exists>pre post. generateSlackMessage n token = pre @ token @ post"
proof -
  have "\<exists>pre. generateSlackMessage n token = pre @ token @ js '' <your command>`''"
    by (simp add: generateSlackMessage_def Let_def)
  then show ?thesis by blast
qed

text \<open>
  C6. When \<open>_createSession\<close> has written the session file and \<open>chat.postMessage\<close> then
  rejects, \<open>_sendImpl\<close> removes that file and returns \<open>false\<close>: the directory it leaves
  is the one it found, without a file of the new session id.
\<close>

theorem sendImpl_rollback:
  assumes "validateConfig cfg"
    and "createSession e fs n (generateToken (mathRandom e)) = Inr (sid, fs', n')"
    and "postMessage e (channelId cfg)
           (generateSlackMessage n' (generateToken (mathRandom e))) = Inl err"
  shows "existsSync fs' (sessionFile sid) \<and>
         returned (sendImpl cfg e fs n) = Inr False \<and>
         \<not> existsSync (files (sendImpl cfg e fs n)) (sessionFile sid) \<and>
         files (sendImpl cfg e fs n) = AList.delete (sessionFile sid) fs"
proof -
  from createSession_record[OF assms(2)] obtain s where
    s: "fs' = AList.update (sessionFile sid) s fs" by blast
  have out: "sendImpl cfg e fs n =
      \<lparr>returned = Inr False, files = AList.delete (sessionFile sid) fs',
       posted = Some (channelId cfg, generateSlackMessage n' (generateToken (mathRandom e)))\<rparr>"
    using assms by (simp add: sendImpl_def Let_def removeSession_eq)
  show ?thesis unfolding out
    by (simp add: s existsSync_def update_conv' delete_conv' delete_update_same)
qed

theorem sendImpl_rollback_witness:
  "validateConfig ex_config \<and>
   createSession (ex_env\<lparr>postMessage := (\<lambda>channel text. Inl PostFailed)\<rparr>) [] ex_notification
       (js ''AAAAAAAA'') =
     Inr (js ''id-1'', [(js ''id-1.json'', ex_session (js ''id-1'') (js ''AAAAAAAA''))],
          ex_notification) \<and>
   returned (sendImpl ex_config (ex_env\<lparr>postMessage := (\<lambda>channel text. Inl PostFailed)\<rparr>) []
       ex_notification) = Inr False \<and>
   files (sendImpl ex_config (ex_env\<lparr>postMessage := (\<lambda>channel text. Inl PostFailed)\<rparr>) []
       ex_notification) = []"
proof -
  let ?e = "ex_env\<lparr>postMessage := (\<lambda>channel text. Inl PostFailed)\<rparr>"
  have t: "generateToken (mathRandom ?e) = js ''AAAAAAAA''"
    by (simp add: ex_defs ex_generateToken)
  have h1: "validateConfig ex_config" by (simp add: ex_defs validateConfig_def truthy_def js_def)
  have c: "createSession ?e [] ex_notification (js ''AAAAAAAA'') =
     Inr (js ''id-1'', [(js ''id-1.json'', ex_session (js ''id-1'') (js ''AAAAAAAA''))],
          ex_notification)"
    by (simp add: ex_defs send_defs string_defs)
  then have h2: "createSession ?e [] ex_notification (generateToken (mathRandom ?e)) =
     Inr (js ''id-1'', [(js ''id-1.json'', ex_session (js ''id-1'') (js ''AAAAAAAA''))],
          ex_notification)"
    by (simp only: t)
  have h3: "postMessage ?e (channelId ex_config)
      (generateSlackMessage ex_notification (generateToken (mathRandom ?e))) = Inl PostFailed"
    by simp
  from sendImpl_rollback[OF h1 h2 h3] h1 c show ?thesis by simp
qed

text \<open>
  C9, as the code has it. When the configuration is valid, the session is created and
  \<open>chat.postMessage\<close> resolves, \<open>_sendImpl\<close> returns \<open>true\<close>. The generated token
  reaches the end user inside the text it posted, and the file of the session id, which
  \<open>_createSession\<close> returned to \<open>_sendImpl\<close>, holds a record with that id and that token.
\<close>

theorem sendImpl_success:
  assumes "validateConfig cfg"
    and "createSession e fs n (generateToken (mathRandom e)) = Inr (sid, fs', n')"
    and "postMessage e (channelId cfg)
           (generateSlackMessage n' (generateToken (mathRandom e))) = Inr u"
  shows "returned (sendImpl cfg e fs n) = Inr True \<and>
         (\<exists>pre post. posted (sendImpl cfg e fs n) =
             Some (channelId cfg, pre @ generateToken (mathRandom e) @ post)) \<and>
         (\<exists>s. map_of (files (sendImpl cfg e fs n)) (sessionFile sid) = Some s \<and>
              s_id s = sid \<and> s_token s = generateToken (mathRandom e))"
proof -
  from createSession_record[OF assms(2)] obtain s where
    s: "fs' = AList.update (sessionFile sid) s fs" "s_id s = sid"
       "s_token s = generateToken (mathRandom e)" by blast
  have out: "sendImpl cfg e fs n =
      \<lparr>returned = Inr True, files = fs',
       posted = Some (channelId cfg, generateSlackMessage n' (generateToken (mathRandom e)))\<rparr>"
    using assms by (simp add: sendImpl_def Let_def)
  show ?thesis unfolding out
    using generateSlackMessage_token[of n' "generateToken (mathRandom e)"] s
    by (auto simp: update_conv')
qed

theorem sendImpl_success_witness:
  "validateConfig ex_config \<and>
   createSession ex_env [] ex_notification (js ''AAAAAAAA'') =
     Inr (js ''id-1'', [(js ''id-1.json'', ex_session (js ''id-1'') (js ''AAAAAAAA''))],
          ex_notification) \<and>
   returned (sendImpl ex_config ex_env [] ex_notification) = Inr True \<and>
   files (sendImpl ex_config ex_env [] ex_notification) =
     [(js ''id-1.json'', ex_session (js ''id-1'') (js ''AAAAAAAA''))]"
proof -
  have t: "generateToken (mathRandom ex_env) = js ''AAAAAAAA''"
    by (simp add: ex_defs ex_generateToken)
  have h1: "validateConfig ex_config" by (simp add: ex_defs validateConfig_def truthy_def js_def)
  have h2: "createSession ex_env [] ex_notification (generateToken (mathRandom ex_env)) =
     Inr (js ''id-1'', [(js ''id-1.json'', ex_session (js ''id-1'') (js ''AAAAAAAA''))],
          ex_notification)"
    by (simp only: t ex_createSession)
  have h3: "postMessage ex_env (channelId ex_config)
      (generateSlackMessage ex_notification (generateToken (mathRandom ex_env))) = Inr ()"
    by (simp add: ex_defs)
  have f: "files (sendImpl ex_config ex_env [] ex_notification) =
     [(js ''id-1.json'', ex_session (js ''id-1'') (js ''AAAAAAAA''))]"
    by (simp add: ex_defs send_defs string_defs)
  from sendImpl_success[OF h1 h2 h3] h1 ex_createSession f show ?thesis by simp
qed

text \<open>
  C9 as stated fails: two successful sends that generate different tokens and create
  sessions with different ids return the same value, \<open>true\<close>, which carries neither.
\<close>

theorem sendImpl_returns_true:
  "returned (sendImpl ex_config ex_env [] ex_notification) = Inr True \<and>
   map (\<lambda>(f, s). (s_id s, s_token s)) (files (sendImpl ex_config ex_env [] ex_notification)) =
     [(js ''id-1'', js ''AAAAAAAA'')] \<and>
   returned (sendImpl ex_config (ex_env\<lparr>mathRandom := (\<lambda>i. 1 / 2), uuidv4 := js ''id-2''\<rparr>) []
       ex_notification) = Inr True \<and>
   map (\<lambda>(f, s). (s_id s, s_token s))
     (files (sendImpl ex_config (ex_env\<lparr>mathRandom := (\<lambda>i. 1 / 2), uuidv4 := js ''id-2''\<rparr>) []
        ex_notification)) =
     [(js ''id-2'', js ''SSSSSSSS'')]"
  by (simp add: ex_defs send_defs string_defs)

section \<open>Tokens of live sessions\<close>






end
